theory Spec2Isabelle
  imports Main
begin

section \<open>The world the module runs in\<close>

text \<open>
  \<^verbatim>\<open>catboost/datasets.py\<close> is a straight-line sequence of calls into the operating
  system, the network and three libraries. Each function of the module is embedded as a
  function from the world before the call to a result and the world after it. A result
  is \<open>Inr v\<close> for a normal return and \<open>Inl e\<close> for an exception that leaves the
  function; the world is returned in both cases, because what was written before an
  exception stays written.

  The file system is a flat name space keyed by absolute path: a path names a regular
  file (with its content), a directory, or nothing. Paths are strings and are taken as
  written: no symbolic links, no \<open>..\<close> components. Nothing but the module changes
  the world while it runs.

  The interpreter is Python 3. The libraries are those of the module's time: a numpy
  that has \<open>np.float\<close> and \<open>np.object\<close>, and a pandas in which the column taken from
  a frame is a view of the frame, so that the assignment of line 167 writes into the
  frame. Logging has no effect that is modelled.
\<close>

type_synonym path = string
type_synonym url = string
type_synonym bytes = string

datatype errno = EEXIST | ENOENT | EACCES | EISDIR | ENOTDIR | ENOSPC

text \<open>An argument of an exception: a string, or a sequence of strings.\<close>

datatype arg = AStr string | ASeq "string list"

text \<open>
  The exceptions that occur. In Python 3 \<open>IOError\<close> is another name of \<open>OSError\<close> and
  \<open>urllib.error.URLError\<close> is a subclass of it. \<open>OtherError\<close> stands for any exception
  of a library that is no \<open>OSError\<close> (for instance \<open>ValueError\<close> for an unknown URL
  scheme).
\<close>

datatype exn =
    OSError errno
  | URLError
  | AttributeError string
  | RuntimeError "arg list"
  | TypeError
  | ValueError
  | KeyError string
  | ReadError
  | OtherError string

datatype exn_class = OSError_class | URLError_class

fun isinstance :: "exn \<Rightarrow> exn_class \<Rightarrow> bool" where
  "isinstance (OSError _) OSError_class = True"
| "isinstance URLError OSError_class = True"
| "isinstance URLError URLError_class = True"
| "isinstance _ _ = False"

text \<open>
  The world: regular files, directories, the working directory, the paths at which the
  operating system refuses to create an entry (with the error it gives), and the URLs
  requested from the network so far, oldest first. The working directory is kept
  without its leading slash, so that \<open>os.getcwd()\<close> is an absolute path in every world.
\<close>

record world =
  files :: "path \<rightharpoonup> bytes"
  dirs :: "path set"
  cwd_tail :: path
  refused :: "path \<rightharpoonup> errno"
  requested :: "url list"

type_synonym 'a io = "world \<Rightarrow> (exn + 'a) \<times> world"

subsection \<open>Paths\<close>

definition getcwd :: "world \<Rightarrow> path" where
  "getcwd w = CHR ''/'' # cwd_tail w"

definition isabs :: "path \<Rightarrow> bool" where
  "isabs p = (case p of [] \<Rightarrow> False | c # _ \<Rightarrow> c = CHR ''/'')"

text \<open>\<open>os.path.join(a, b)\<close> of \<open>posixpath\<close>, for two arguments.\<close>

definition os_path_join :: "path \<Rightarrow> path \<Rightarrow> path" where
  "os_path_join a b =
     (if isabs b then b
      else if a = [] \<or> last a = CHR ''/'' then a @ b
      else a @ ''/'' @ b)"

text \<open>How the operating system reads a path argument: relative to the working directory.\<close>

definition abspath :: "world \<Rightarrow> path \<Rightarrow> path" where
  "abspath w p =
     (if isabs p then p
      else if p = ''.'' then getcwd w
      else os_path_join (getcwd w) p)"

subsection \<open>Operating-system calls\<close>

text \<open>\<open>os.getcwd()\<close> fails when the working directory has been removed.\<close>

definition os_getcwd :: "world \<Rightarrow> exn + path" where
  "os_getcwd w = (if getcwd w \<in> dirs w then Inr (getcwd w) else Inl (OSError ENOENT))"

definition os_chdir :: "path \<Rightarrow> unit io" where
  "os_chdir p w =
     (let a = abspath w p in
      if a \<in> dirs w then (Inr (), w\<lparr>cwd_tail := tl a\<rparr>)
      else (Inl (OSError (if files w a = None then ENOENT else ENOTDIR)), w))"

definition os_path_isfile :: "world \<Rightarrow> path \<Rightarrow> bool" where
  "os_path_isfile w p = (files w (abspath w p) \<noteq> None)"

definition os_path_isdir :: "world \<Rightarrow> path \<Rightarrow> bool" where
  "os_path_isdir w p = (abspath w p \<in> dirs w)"

definition os_path_exists :: "world \<Rightarrow> path \<Rightarrow> bool" where
  "os_path_exists w p = (os_path_isfile w p \<or> os_path_isdir w p)"

text \<open>\<open>open(path, 'rb')\<close> followed by reading the whole file.\<close>

definition read_file :: "world \<Rightarrow> path \<Rightarrow> exn + bytes" where
  "read_file w p =
     (case files w (abspath w p) of
        Some c \<Rightarrow> Inr c
      | None \<Rightarrow> Inl (OSError (if abspath w p \<in> dirs w then EISDIR else ENOENT)))"

text \<open>\<open>open(path, 'wb')\<close>, writing the content, closing.\<close>

definition write_file :: "path \<Rightarrow> bytes \<Rightarrow> unit io" where
  "write_file p c w =
     (let a = abspath w p in
      if a \<in> dirs w then (Inl (OSError EISDIR), w)
      else case refused w a of
        Some err \<Rightarrow> (if files w a = None then (Inl (OSError err), w)
                     else (Inr (), w\<lparr>files := (files w)(a \<mapsto> c)\<rparr>))
      | None \<Rightarrow> (Inr (), w\<lparr>files := (files w)(a \<mapsto> c)\<rparr>))"

text \<open>
  \<open>os.makedirs(path)\<close>: an \<open>OSError\<close> when the path exists already, or when the
  operating system refuses for a reason of its own; otherwise the directory exists
  afterwards.
\<close>

definition os_makedirs :: "path \<Rightarrow> unit io" where
  "os_makedirs p w =
     (let a = abspath w p in
      if a \<in> dirs w \<or> files w a \<noteq> None then (Inl (OSError EEXIST), w)
      else case refused w a of
        Some err \<Rightarrow> (Inl (OSError err), w)
      | None \<Rightarrow> (Inr (), w\<lparr>dirs := insert a (dirs w)\<rparr>))"

definition os_remove :: "path \<Rightarrow> unit io" where
  "os_remove p w =
     (let a = abspath w p in
      case files w a of
        Some _ \<Rightarrow> (Inr (), w\<lparr>files := (files w)(a := None)\<rparr>)
      | None \<Rightarrow> (Inl (OSError (if a \<in> dirs w then EISDIR else ENOENT)), w))"

text \<open>
  \<open>try: body finally: cleanup\<close>. The cleanup runs on every exit of the body; an
  exception of the cleanup replaces the body's outcome.
\<close>

definition try_finally :: "'a io \<Rightarrow> unit io \<Rightarrow> 'a io" where
  "try_finally body cleanup w =
     (case body w of (r, w1) \<Rightarrow>
        (case cleanup w1 of
           (Inl e, w2) \<Rightarrow> (Inl e, w2)
         | (Inr _, w2) \<Rightarrow> (r, w2)))"

section \<open>The environment: what the libraries and the network answer\<close>

text \<open>
  What a transfer does: it completes with the content served, or it is aborted by an
  exception, having left the destination untouched (\<open>None\<close>) or with the bytes
  received so far.
\<close>

datatype transfer = Transferred bytes | Aborted exn "bytes option"

datatype tar_member = TarFile path bytes | TarDir path

datatype 'n cell = Text string | Number 'n | NaN

type_synonym 'n frame = "(string \<times> 'n cell list) list"

datatype header_opt = Infer | NoHeader

record csv_opts =
  opt_header :: header_opt
  opt_names :: "string list option"
  opt_sep :: string
  opt_na_values :: "string list"
  opt_skiprows :: nat

text \<open>
  The parts of the interpreter, its libraries and the network that the module uses and
  does not define:
  \<^item> \<open>md5_of\<close>: the hexadecimal MD5 digest of a byte string (\<open>hashlib\<close>);
  \<^item> \<open>fetch\<close>: what a transfer from a URL does (\<open>urlretrieve\<close>);
  \<^item> \<open>urllib_attr\<close>: the exception class bound to a name in the module object \<open>urllib\<close>
    that line 8 imports, \<open>None\<close> when the module has no such attribute;
  \<^item> \<open>untar\<close>: the members of a gzip-compressed tar archive, or the error of reading it;
  \<^item> \<open>tmp_names\<close>: the candidate names \<open>tempfile\<close> draws, in order;
  \<^item> \<open>csv_fields\<close>: the fields of a delimited file, as named columns of strings
    (the tokenizer of \<open>pandas.read_csv\<close>);
  \<^item> \<open>to_number\<close>: the number a field denotes, if it denotes one.
\<close>

record 'n env =
  md5_of :: "bytes \<Rightarrow> string"
  fetch :: "url \<Rightarrow> transfer"
  urllib_attr :: "string \<Rightarrow> exn_class option"
  untar :: "bytes \<Rightarrow> exn + tar_member list"
  tmp_names :: "string list"
  csv_fields :: "csv_opts \<Rightarrow> bytes \<Rightarrow> exn + (string \<times> string list) list"
  to_number :: "string \<Rightarrow> 'n option"

section \<open>The module\<close>

subsection \<open>\<open>_calc_md5\<close> (lines 29-37)\<close>

text \<open>
  The loop reads blocks of 65536 bytes until a read returns nothing, feeding each to
  the hasher. A \<open>hashlib\<close> hasher digests the concatenation of what it was fed, so its
  state is the bytes fed so far.
\<close>

function read_blocks :: "bytes \<Rightarrow> bytes \<Rightarrow> bytes" where
  "read_blocks rest fed =
     (if take 65536 rest = [] then fed
      else read_blocks (drop 65536 rest) (fed @ take 65536 rest))"
  by pat_completeness auto
termination
  by (relation "measure (\<lambda>(rest, fed). length rest)") auto

declare read_blocks.simps [simp del]

definition calc_md5 :: "'n env \<Rightarrow> world \<Rightarrow> path \<Rightarrow> exn + string" where
  "calc_md5 env w path =
     (case read_file w path of
        Inl e \<Rightarrow> Inl e
      | Inr content \<Rightarrow> Inr (md5_of env (read_blocks content [])))"

subsection \<open>\<open>_ensure_dir_exists\<close> (lines 40-45)\<close>

definition ensure_dir_exists :: "path \<Rightarrow> unit io" where
  "ensure_dir_exists path w =
     (case os_makedirs path w of
        (Inr _, w1) \<Rightarrow> (Inr (), w1)
      | (Inl e, w1) \<Rightarrow>
          (if isinstance e OSError_class
           then (if \<not> os_path_isdir w1 path then (Inl e, w1) else (Inr (), w1))
           else (Inl e, w1)))"

subsection \<open>\<open>_cached_download\<close> (lines 48-69)\<close>

text \<open>
  \<open>urlretrieve(u, dst, reporthook=reporthook)\<close>: the request is made, then the content
  is written to the destination. The report hook only logs.
\<close>

definition urlretrieve :: "'n env \<Rightarrow> url \<Rightarrow> path \<Rightarrow> unit io" where
  "urlretrieve env u dst w =
     (let w1 = w\<lparr>requested := requested w @ [u]\<rparr> in
      case fetch env u of
        Transferred content \<Rightarrow> write_file dst content w1
      | Aborted e None \<Rightarrow> (Inl e, w1)
      | Aborted e (Some part) \<Rightarrow>
          (case write_file dst part w1 of
             (Inl e', w2) \<Rightarrow> (Inl e', w2)
           | (Inr _, w2) \<Rightarrow> (Inl e, w2)))"

text \<open>
  \<open>except (urllib.URLError, IOError):\<close> (line 61). Python evaluates the expression of
  an \<open>except\<close> clause when an exception reaches the clause, and matches the exception
  against the classes it yields. The expression looks \<open>URLError\<close> up in the module
  object \<open>urllib\<close>; when the module has no such attribute the lookup raises
  \<open>AttributeError\<close>, which leaves the \<open>try\<close> statement in place of the exception in
  flight. The result is the error of the lookup, or whether the clause catches \<open>e\<close>.
\<close>

definition handler_catches :: "'n env \<Rightarrow> exn \<Rightarrow> exn + bool" where
  "handler_catches env e =
     (case urllib_attr env ''URLError'' of
        None \<Rightarrow> Inl (AttributeError ''URLError'')
      | Some c \<Rightarrow> Inr (isinstance e c \<or> isinstance e OSError_class))"

text \<open>
  The \<open>for\<close> loop of lines 57-62. The result \<open>Inr True\<close> is the \<open>break\<close>; \<open>Inr False\<close>
  is the loop running out of URLs, after which Python runs the \<open>else\<close> branch.
\<close>

fun download_loop :: "'n env \<Rightarrow> url list \<Rightarrow> path \<Rightarrow> bool io" where
  "download_loop env [] dst w = (Inr False, w)"
| "download_loop env (u # us) dst w =
     (case urlretrieve env u dst w of
        (Inr _, w1) \<Rightarrow> (Inr True, w1)
      | (Inl e, w1) \<Rightarrow>
          (case handler_catches env e of
             Inl e' \<Rightarrow> (Inl e', w1)
           | Inr True \<Rightarrow> download_loop env us dst w1
           | Inr False \<Rightarrow> (Inl e, w1)))"

text \<open>The \<open>url\<close> argument: a string, or a list or tuple of strings (line 55).\<close>

datatype urlarg = One url | Many "url list"

fun urls_of :: "urlarg \<Rightarrow> url list" where
  "urls_of (One u) = [u]"
| "urls_of (Many us) = us"

text \<open>The condition of line 49; \<open>and\<close> evaluates its second operand only when the first holds.\<close>

definition cache_hit :: "'n env \<Rightarrow> string \<Rightarrow> path \<Rightarrow> world \<Rightarrow> exn + bool" where
  "cache_hit env md5 dst w =
     (if os_path_isfile w dst
      then (case calc_md5 env w dst of Inl e \<Rightarrow> Inl e | Inr d \<Rightarrow> Inr (d = md5))
      else Inr False)"

definition mismatch_message :: "string \<Rightarrow> string \<Rightarrow> string" where
  "mismatch_message expected got =
     ''md5 sum mismatch; expected '' @ expected @ '', but got '' @ got"

definition cached_download :: "'n env \<Rightarrow> urlarg \<Rightarrow> string \<Rightarrow> path \<Rightarrow> unit io" where
  "cached_download env url md5 dst w =
     (case cache_hit env md5 dst w of
        Inl e \<Rightarrow> (Inl e, w)
      | Inr True \<Rightarrow> (Inr (), w)
      | Inr False \<Rightarrow>
          (case download_loop env (urls_of url) dst w of
             (Inl e, w1) \<Rightarrow> (Inl e, w1)
           | (Inr False, w1) \<Rightarrow>
               (Inl (RuntimeError [AStr ''failed to download from %s'', ASeq (urls_of url)]), w1)
           | (Inr True, w1) \<Rightarrow>
               (case calc_md5 env w1 dst of
                  Inl e \<Rightarrow> (Inl e, w1)
                | Inr dst_md5 \<Rightarrow>
                    (if dst_md5 \<noteq> md5
                     then (Inl (RuntimeError [AStr (mismatch_message md5 dst_md5)]), w1)
                     else (Inr (), w1)))))"

subsection \<open>\<open>_extract\<close> (lines 19-26)\<close>

text \<open>
  \<open>tarfile.open(src_file, 'r:gz')\<close> reads the archive; \<open>f.extractall()\<close> writes its
  members one after the other, relative to the working directory, and stops at the
  first member that cannot be written. A directory member whose path exists already is
  skipped.
\<close>

definition tarfile_open :: "'n env \<Rightarrow> world \<Rightarrow> path \<Rightarrow> exn + tar_member list" where
  "tarfile_open env w src =
     (case read_file w src of Inl e \<Rightarrow> Inl e | Inr content \<Rightarrow> untar env content)"

fun extract_member :: "tar_member \<Rightarrow> unit io" where
  "extract_member (TarFile name content) w = write_file name content w"
| "extract_member (TarDir name) w =
     (if files w (abspath w name) \<noteq> None then (Inr (), w)
      else (Inr (), w\<lparr>dirs := insert (abspath w name) (dirs w)\<rparr>))"

fun extractall :: "tar_member list \<Rightarrow> unit io" where
  "extractall [] w = (Inr (), w)"
| "extractall (m # ms) w =
     (case extract_member m w of
        (Inl e, w1) \<Rightarrow> (Inl e, w1)
      | (Inr _, w1) \<Rightarrow> extractall ms w1)"

definition open_and_extractall :: "'n env \<Rightarrow> path \<Rightarrow> unit io" where
  "open_and_extractall env src_file w =
     (case tarfile_open env w src_file of
        Inl e \<Rightarrow> (Inl e, w)
      | Inr f \<Rightarrow> extractall f w)"

definition extract_archive :: "'n env \<Rightarrow> path \<Rightarrow> path \<Rightarrow> unit io" where
  "extract_archive env src_file dst_dir w =
     (case os_getcwd w of
        Inl e \<Rightarrow> (Inl e, w)
      | Inr cur_dir \<Rightarrow>
          (case os_chdir dst_dir w of
             (Inl e, w1) \<Rightarrow> (Inl e, w1)
           | (Inr _, w1) \<Rightarrow>
               try_finally (open_and_extractall env src_file) (os_chdir cur_dir) w1))"

subsection \<open>\<open>_get_cache_path\<close> and \<open>_cached_dataset_load\<close> (lines 72-89)\<close>

definition get_cache_path :: "world \<Rightarrow> exn + path" where
  "get_cache_path w =
     (case os_getcwd w of
        Inl e \<Rightarrow> Inl e
      | Inr c \<Rightarrow> Inr (os_path_join c ''catboost_cached_datasets''))"

text \<open>
  \<open>tempfile.mkstemp()\<close> creates an empty file under the first candidate name that is
  not taken, in the temporary directory, and returns its absolute path. (The file
  descriptor it also returns is closed at once, line 83.)
\<close>

definition tmp_path :: "string \<Rightarrow> path" where
  "tmp_path name = ''/tmp/'' @ name"

definition mkstemp :: "'n env \<Rightarrow> path io" where
  "mkstemp env w =
     (case find (\<lambda>name. files w (tmp_path name) = None \<and> tmp_path name \<notin> dirs w)
             (tmp_names env) of
        None \<Rightarrow> (Inl (OSError EEXIST), w)
      | Some name \<Rightarrow>
          (case refused w (tmp_path name) of
             Some err \<Rightarrow> (Inl (OSError err), w)
           | None \<Rightarrow> (Inr (tmp_path name), w\<lparr>files := (files w)(tmp_path name \<mapsto> [])\<rparr>)))"

text \<open>
  \<open>pandas.read_csv\<close>: the file is split into named columns of fields; a field that is
  one of the missing-value markers becomes \<open>NaN\<close>; a column whose other fields all
  denote numbers becomes numeric, any other column keeps its fields as text. The
  markers are those of the call and the defaults of pandas, the empty field among
  them.
\<close>

definition default_na_values :: "string list" where
  "default_na_values =
     [[], ''#N/A'', ''#N/A N/A'', ''#NA'', ''-1.#IND'', ''-1.#QNAN'', ''-NaN'', ''-nan'',
      ''1.#IND'', ''1.#QNAN'', ''N/A'', ''NA'', ''NULL'', ''NaN'', ''nan'']"

definition convert_column :: "'n env \<Rightarrow> string list \<Rightarrow> string list \<Rightarrow> 'n cell list" where
  "convert_column env na toks =
     (if list_all (\<lambda>t. t \<in> set na \<or> to_number env t \<noteq> None) toks
      then map (\<lambda>t. if t \<in> set na then NaN
                     else (case to_number env t of Some x \<Rightarrow> Number x | None \<Rightarrow> NaN)) toks
      else map (\<lambda>t. if t \<in> set na then NaN else Text t) toks)"

definition read_csv :: "'n env \<Rightarrow> csv_opts \<Rightarrow> world \<Rightarrow> path \<Rightarrow> exn + 'n frame" where
  "read_csv env opts w p =
     (case read_file w p of
        Inl e \<Rightarrow> Inl e
      | Inr content \<Rightarrow>
          (case csv_fields env opts content of
             Inl e \<Rightarrow> Inl e
           | Inr cols \<Rightarrow>
               Inr (map (\<lambda>(name, toks).
                      (name, convert_column env (opt_na_values opts @ default_na_values) toks))
                    cols)))"

definition default_opts :: "header_opt \<Rightarrow> csv_opts" where
  "default_opts header =
     \<lparr>opt_header = header, opt_names = None, opt_sep = '','', opt_na_values = [],
      opt_skiprows = 0\<rparr>"

text \<open>Lines 82-88: the temporary file, the download and the extraction, and the removal.\<close>

definition download_and_extract :: "'n env \<Rightarrow> urlarg \<Rightarrow> string \<Rightarrow> path \<Rightarrow> path \<Rightarrow> unit io" where
  "download_and_extract env url md5 file_path dir_path w =
     (case cached_download env url md5 file_path w of
        (Inl e, w1) \<Rightarrow> (Inl e, w1)
      | (Inr _, w1) \<Rightarrow> extract_archive env file_path dir_path w1)"

definition fetch_into_cache :: "'n env \<Rightarrow> urlarg \<Rightarrow> string \<Rightarrow> path \<Rightarrow> unit io" where
  "fetch_into_cache env url md5 dir_path w =
     (case ensure_dir_exists dir_path w of
        (Inl e, w1) \<Rightarrow> (Inl e, w1)
      | (Inr _, w1) \<Rightarrow>
          (case mkstemp env w1 of
             (Inl e, w2) \<Rightarrow> (Inl e, w2)
           | (Inr file_path, w2) \<Rightarrow>
               try_finally (download_and_extract env url md5 file_path dir_path)
                 (os_remove file_path) w2))"

definition read_both ::
  "'n env \<Rightarrow> csv_opts \<Rightarrow> csv_opts \<Rightarrow> path \<Rightarrow> path \<Rightarrow> ('n frame \<times> 'n frame) io" where
  "read_both env train_opts test_opts train_path test_path w =
     (case read_csv env train_opts w train_path of
        Inl e \<Rightarrow> (Inl e, w)
      | Inr train_df \<Rightarrow>
          (case read_csv env test_opts w test_path of
             Inl e \<Rightarrow> (Inl e, w)
           | Inr test_df \<Rightarrow> (Inr (train_df, test_df), w)))"

definition cached_dataset_load ::
  "'n env \<Rightarrow> urlarg \<Rightarrow> string \<Rightarrow> string \<Rightarrow> string \<Rightarrow> string \<Rightarrow> header_opt
     \<Rightarrow> ('n frame \<times> 'n frame) io" where
  "cached_dataset_load env url md5 dataset_name train_file test_file header w =
     (case get_cache_path w of
        Inl e \<Rightarrow> (Inl e, w)
      | Inr cache_path \<Rightarrow>
          (let dir_path = os_path_join cache_path dataset_name;
               train_path = os_path_join dir_path train_file;
               test_path = os_path_join dir_path test_file
           in if \<not> (os_path_exists w train_path \<and> os_path_exists w test_path)
              then (case fetch_into_cache env url md5 dir_path w of
                      (Inl e, w1) \<Rightarrow> (Inl e, w1)
                    | (Inr _, w1) \<Rightarrow>
                        read_both env (default_opts header) (default_opts header)
                          train_path test_path w1)
              else read_both env (default_opts header) (default_opts header)
                     train_path test_path w))"

subsection \<open>The accessors (lines 92-169)\<close>

definition titanic :: "'n env \<Rightarrow> ('n frame \<times> 'n frame) io" where
  "titanic env =
     cached_dataset_load env
       (One ''https://storage.mds.yandex.net/get-devtools-opensource/233854/titanic.tar.gz'')
       ''9c8bc61d545c6af244a1d37494df3fc3'' ''titanic'' ''train.csv'' ''test.csv'' Infer"

definition amazon :: "'n env \<Rightarrow> ('n frame \<times> 'n frame) io" where
  "amazon env =
     cached_dataset_load env
       (One ''https://storage.mds.yandex.net/get-devtools-opensource/250854/amazon.tar.gz'')
       ''8fe3eec12bfd9c4c532b24a181d0aa2c'' ''amazon'' ''train.csv'' ''test.csv'' Infer"

definition msrank :: "'n env \<Rightarrow> ('n frame \<times> 'n frame) io" where
  "msrank env =
     cached_dataset_load env
       (One ''https://storage.mds.yandex.net/get-devtools-opensource/250854/msrank_10k.tar.gz'')
       ''79c5b67397289c4c8b367c1f34629eae'' ''msrank'' ''train.csv'' ''test.csv'' NoHeader"

datatype dtype = Float | Object

definition adult_names :: "string list" where
  "adult_names =
     [''age'', ''workclass'', ''fnlwgt'', ''education'', ''education-num'',
      ''marital-status'', ''occupation'', ''relationship'', ''race'', ''sex'',
      ''capital-gain'', ''capital-loss'', ''hours-per-week'', ''native-country'', ''income'']"

definition adult_dtype :: "(string \<times> dtype) list" where
  "adult_dtype =
     [(''age'', Float), (''workclass'', Object), (''fnlwgt'', Float), (''education'', Object),
      (''education-num'', Float), (''marital-status'', Object), (''occupation'', Object),
      (''relationship'', Object), (''race'', Object), (''sex'', Object),
      (''capital-gain'', Float), (''capital-loss'', Float), (''hours-per-week'', Float),
      (''native-country'', Object), (''income'', Object)]"

text \<open>The separator is the regular expression of a comma followed by any white space.\<close>

definition adult_opts :: "nat \<Rightarrow> csv_opts" where
  "adult_opts skip =
     \<lparr>opt_header = NoHeader, opt_names = Some adult_names,
      opt_sep = [CHR '','', CHR 0x5C, CHR ''s'', CHR ''*''],
      opt_na_values = [''?''], opt_skiprows = skip\<rparr>"

definition adult_train_urls :: "url list" where
  "adult_train_urls =
     [''https://proxy.sandbox.yandex-team.ru/779118052'',
      ''https://archive.ics.uci.edu/ml/machine-learning-databases/adult/adult.data'']"

definition adult_test_urls :: "url list" where
  "adult_test_urls =
     [''https://proxy.sandbox.yandex-team.ru/779120000'',
      ''https://archive.ics.uci.edu/ml/machine-learning-databases/adult/adult.test'']"

text \<open>
  \<open>DataFrame.astype(dtype)\<close> with a dictionary: every key must be a column; a column
  cast to \<open>np.float\<close> fails on text; a column cast to \<open>np.object\<close> keeps its values; a
  column that is no key is left as it is.
\<close>

fun astype_cell :: "dtype \<Rightarrow> 'n cell \<Rightarrow> exn + 'n cell" where
  "astype_cell Object c = Inr c"
| "astype_cell Float (Text s) = Inl ValueError"
| "astype_cell Float c = Inr c"

fun astype_cells :: "dtype \<Rightarrow> 'n cell list \<Rightarrow> exn + 'n cell list" where
  "astype_cells t [] = Inr []"
| "astype_cells t (c # cs) =
     (case astype_cell t c of
        Inl e \<Rightarrow> Inl e
      | Inr c' \<Rightarrow>
          (case astype_cells t cs of Inl e \<Rightarrow> Inl e | Inr cs' \<Rightarrow> Inr (c' # cs')))"

fun astype_columns :: "(string \<times> dtype) list \<Rightarrow> 'n frame \<Rightarrow> exn + 'n frame" where
  "astype_columns dt [] = Inr []"
| "astype_columns dt ((name, col) # rest) =
     (case (case map_of dt name of None \<Rightarrow> Inr col | Some t \<Rightarrow> astype_cells t col) of
        Inl e \<Rightarrow> Inl e
      | Inr col' \<Rightarrow>
          (case astype_columns dt rest of
             Inl e \<Rightarrow> Inl e
           | Inr rest' \<Rightarrow> Inr ((name, col') # rest')))"

definition astype :: "(string \<times> dtype) list \<Rightarrow> 'n frame \<Rightarrow> exn + 'n frame" where
  "astype dt df =
     (case find (\<lambda>k. map_of df k = None) (map fst dt) of
        Some k \<Rightarrow> Inl (KeyError k)
      | None \<Rightarrow> astype_columns dt df)"

text \<open>
  Lines 166-167. \<open>test_df.income\<close> is the column named \<open>income\<close>; \<open>value[:-1]\<close> is
  defined on a string and raises \<open>TypeError\<close> on a number or on \<open>NaN\<close>; the assignment
  writes the cell of row \<open>i\<close> of that column of the frame.
\<close>

fun strip_last :: "'n cell \<Rightarrow> exn + 'n cell" where
  "strip_last (Text s) = Inr (Text (butlast s))"
| "strip_last _ = Inl TypeError"

definition set_cell :: "'n frame \<Rightarrow> string \<Rightarrow> nat \<Rightarrow> 'n cell \<Rightarrow> 'n frame" where
  "set_cell df name i v =
     map (\<lambda>(n, col). if n = name then (n, col[i := v]) else (n, col)) df"

fun fix_income_loop :: "nat list \<Rightarrow> 'n frame \<Rightarrow> exn + 'n frame" where
  "fix_income_loop [] df = Inr df"
| "fix_income_loop (i # rest) df =
     (case map_of df ''income'' of
        None \<Rightarrow> Inl (AttributeError ''income'')
      | Some col \<Rightarrow>
          (if i < length col
           then (case strip_last (col ! i) of
                   Inl e \<Rightarrow> Inl e
                 | Inr v \<Rightarrow> fix_income_loop rest (set_cell df ''income'' i v))
           else Inl (KeyError ''income'')))"

definition fix_income :: "'n frame \<Rightarrow> exn + 'n frame" where
  "fix_income df =
     (case map_of df ''income'' of
        None \<Rightarrow> Inl (AttributeError ''income'')
      | Some col \<Rightarrow> fix_income_loop [0..<length col] df)"

text \<open>Lines 159-169: the casts and the fix of the label column.\<close>

definition adult_postprocess ::
  "'n frame \<Rightarrow> 'n frame \<Rightarrow> exn + ('n frame \<times> 'n frame)" where
  "adult_postprocess train_df test_df =
     (case astype adult_dtype train_df of
        Inl e \<Rightarrow> Inl e
      | Inr train_df' \<Rightarrow>
          (case astype adult_dtype test_df of
             Inl e \<Rightarrow> Inl e
           | Inr test_df' \<Rightarrow>
               (case fix_income test_df' of
                  Inl e \<Rightarrow> Inl e
                | Inr test_df'' \<Rightarrow> Inr (train_df', test_df''))))"

definition adult :: "'n env \<Rightarrow> ('n frame \<times> 'n frame) io" where
  "adult env w =
     (case get_cache_path w of
        Inl e \<Rightarrow> (Inl e, w)
      | Inr cache_path \<Rightarrow>
          (let dir_path = os_path_join cache_path ''adult'';
               train_path = os_path_join dir_path ''train.csv'';
               test_path = os_path_join dir_path ''test.csv''
           in case ensure_dir_exists dir_path w of
                (Inl e, w1) \<Rightarrow> (Inl e, w1)
              | (Inr _, w1) \<Rightarrow>
                  (case cached_download env (Many adult_train_urls)
                          ''5d7c39d7b8804f071cdd1f2a7c460872'' train_path w1 of
                     (Inl e, w2) \<Rightarrow> (Inl e, w2)
                   | (Inr _, w2) \<Rightarrow>
                       (case cached_download env (Many adult_test_urls)
                               ''35238206dfdf7f1fe215bbb874adecdc'' test_path w2 of
                          (Inl e, w3) \<Rightarrow> (Inl e, w3)
                        | (Inr _, w3) \<Rightarrow>
                            (case read_both env (adult_opts 0) (adult_opts 1)
                                    train_path test_path w3 of
                               (Inl e, w4) \<Rightarrow> (Inl e, w4)
                             | (Inr (train_df, test_df), w4) \<Rightarrow>
                                 (case adult_postprocess train_df test_df of
                                    Inl e \<Rightarrow> (Inl e, w4)
                                  | Inr r \<Rightarrow> (Inr r, w4)))))))"

section \<open>A concrete environment\<close>

text \<open>
  A small environment and a few worlds on which the functions of the module are run.
  The digest, the network, the archive reader and the tokenizer are stand-ins. The
  name space of \<open>urllib\<close> is the interpreter's: the module object that
  \<^verbatim>\<open>import urllib\<close> binds has no attribute \<open>URLError\<close> (in Python 3 the package has
  only its submodules \<open>error\<close>, \<open>parse\<close>, \<open>request\<close> and \<open>response\<close>, and the class is
  \<open>urllib.error.URLError\<close>; in Python 2 the class is \<open>urllib2.URLError\<close>).
\<close>

definition cpython_urllib :: "string \<Rightarrow> exn_class option" where
  "cpython_urllib name = None"

definition demo_digest :: "bytes \<Rightarrow> string" where
  "demo_digest c = ''md5:'' @ c"

definition demo_fetch :: "url \<Rightarrow> transfer" where
  "demo_fetch u =
     (if u = ''http://good/'' then Transferred ''tgz''
      else if u = ''http://stale/'' then Transferred ''old''
      else Aborted URLError None)"

definition demo_untar :: "bytes \<Rightarrow> exn + tar_member list" where
  "demo_untar b =
     (if b = ''tgz'' then Inr [TarFile ''train.csv'' ''<=50K'', TarFile ''test.csv'' ''>50K.'']
      else Inl ReadError)"

definition demo_csv_fields :: "csv_opts \<Rightarrow> bytes \<Rightarrow> exn + (string \<times> string list) list" where
  "demo_csv_fields opts b =
     Inr (map (\<lambda>name. (name, [if name = ''income'' then b else ''1'']))
            (case opt_names opts of Some names \<Rightarrow> names | None \<Rightarrow> [''id'', ''income'']))"

definition demo_number :: "string \<Rightarrow> int option" where
  "demo_number t = (if t = ''1'' then Some 1 else None)"

definition demo_env :: "int env" where
  "demo_env =
     \<lparr>md5_of = demo_digest, fetch = demo_fetch, urllib_attr = cpython_urllib,
      untar = demo_untar, tmp_names = [''tmp0'', ''tmp1''],
      csv_fields = demo_csv_fields, to_number = demo_number\<rparr>"

definition fresh_world :: world where
  "fresh_world =
     \<lparr>files = Map.empty, dirs = {''/'', ''/tmp'', ''/w''}, cwd_tail = ''w'',
      refused = Map.empty, requested = []\<rparr>"

definition cached_world :: world where
  "cached_world = fresh_world\<lparr>files := [''/w/f'' \<mapsto> ''tgz'']\<rparr>"

definition readonly_world :: world where
  "readonly_world = fresh_world\<lparr>refused := [''/w/c'' \<mapsto> EACCES]\<rparr>"

definition loaded_world :: world where
  "loaded_world =
     fresh_world\<lparr>files := [''/w/catboost_cached_datasets/d/train.csv'' \<mapsto> ''<=50K'',
                          ''/w/catboost_cached_datasets/d/test.csv'' \<mapsto> ''>50K.''],
                 dirs := {''/'', ''/tmp'', ''/w'', ''/w/catboost_cached_datasets'',
                          ''/w/catboost_cached_datasets/d''}\<rparr>"

definition census_digest :: "bytes \<Rightarrow> string" where
  "census_digest c =
     (if c = ''<=50K'' then ''5d7c39d7b8804f071cdd1f2a7c460872''
      else ''35238206dfdf7f1fe215bbb874adecdc'')"

definition census_env :: "int env" where
  "census_env = demo_env\<lparr>md5_of := census_digest\<rparr>"

definition census_world :: world where
  "census_world =
     fresh_world\<lparr>files := [''/w/catboost_cached_datasets/adult/train.csv'' \<mapsto> ''<=50K'',
                          ''/w/catboost_cached_datasets/adult/test.csv'' \<mapsto> ''>50K.''],
                 dirs := {''/'', ''/tmp'', ''/w'', ''/w/catboost_cached_datasets'',
                          ''/w/catboost_cached_datasets/adult''}\<rparr>"

definition census_frame :: "string \<Rightarrow> int frame" where
  "census_frame label =
     map (\<lambda>name. (name, [if name = ''income'' then Text label else Number 1])) adult_names"

section \<open>Basic facts\<close>

lemma abspath_slash: "CHR ''/'' # tl (abspath w p) = abspath w p"
  by (cases p) (auto simp: abspath_def isabs_def getcwd_def os_path_join_def)

lemma abspath_getcwd [simp]: "abspath w (getcwd w) = getcwd w"
  by (simp add: abspath_def isabs_def getcwd_def)

lemma read_blocks_eq: "read_blocks rest fed = fed @ rest"
proof (induction rest fed rule: read_blocks.induct)
  case (1 rest fed)
  show ?case
  proof (cases "take 65536 rest = []")
    case True
    then have "rest = []" by simp
    then show ?thesis by (subst read_blocks.simps) simp
  next
    case False
    with "1" show ?thesis by (subst read_blocks.simps) simp
  qed
qed

lemma calc_md5_eq:
  "calc_md5 env w p = (case read_file w p of Inl e \<Rightarrow> Inl e | Inr c \<Rightarrow> Inr (md5_of env c))"
  by (simp add: calc_md5_def read_blocks_eq split: sum.splits)

lemma isabs_abspath [simp]: "isabs p \<Longrightarrow> abspath w p = p"
  by (simp add: abspath_def)

lemma abspath_frame:
  "cwd_tail w1 = cwd_tail w \<Longrightarrow> abspath w1 p = abspath w p"
  by (simp add: abspath_def getcwd_def)

lemma write_file_frame:
  "write_file p c w = (r, w1) \<Longrightarrow>
     cwd_tail w1 = cwd_tail w \<and> dirs w1 = dirs w \<and> requested w1 = requested w
     \<and> refused w1 = refused w \<and> (files w a \<noteq> None \<longrightarrow> files w1 a \<noteq> None)"
  by (auto simp: write_file_def Let_def split: option.splits if_splits)







lemma urlretrieve_frame:
  "urlretrieve env u dst w = (r, w1) \<Longrightarrow>
     cwd_tail w1 = cwd_tail w \<and> dirs w1 = dirs w \<and> requested w1 = requested w @ [u]
     \<and> refused w1 = refused w \<and> (files w a \<noteq> None \<longrightarrow> files w1 a \<noteq> None)"
proof -
  assume run: "urlretrieve env u dst w = (r, w1)"
  let ?w0 = "w\<lparr>requested := requested w @ [u]\<rparr>"
  show ?thesis
  proof (cases "fetch env u")
    case (Transferred content)
    with run have "write_file dst content ?w0 = (r, w1)" by (simp add: urlretrieve_def)
    from write_file_frame [OF this, of a] show ?thesis by simp
  next
    case (Aborted e part)
    show ?thesis
    proof (cases part)
      case None
      with Aborted run show ?thesis by (auto simp: urlretrieve_def)
    next
      case (Some b)
      obtain r2 w2 where wr: "write_file dst b ?w0 = (r2, w2)" by (cases "write_file dst b ?w0")
      with Aborted Some run have "w1 = w2" by (auto simp: urlretrieve_def split: sum.splits)
      with write_file_frame [OF wr, of a] show ?thesis by simp
    qed
  qed
qed

lemma download_loop_frame:
  "download_loop env us dst w = (r, w1) \<Longrightarrow>
     cwd_tail w1 = cwd_tail w \<and> dirs w1 = dirs w \<and> refused w1 = refused w
     \<and> (files w a \<noteq> None \<longrightarrow> files w1 a \<noteq> None)
     \<and> (r = Inr False \<longrightarrow> requested w1 = requested w @ us)"
proof (induction us arbitrary: w)
  case Nil
  then show ?case by auto
next
  case (Cons u us)
  obtain r0 w0 where t: "urlretrieve env u dst w = (r0, w0)" by (cases "urlretrieve env u dst w")
  note f = urlretrieve_frame [OF t, of a]
  show ?case
  proof (cases r0)
    case (Inr x)
    with Cons.prems t f show ?thesis by auto
  next
    case (Inl e)
    show ?thesis
    proof (cases "handler_catches env e")
      case e': (Inl e')
      with Inl Cons.prems t f show ?thesis by auto
    next
      case (Inr caught)
      show ?thesis
      proof (cases caught)
        case True
        with Inr Inl Cons.prems t have "download_loop env us dst w0 = (r, w1)" by simp
        from Cons.IH [OF this] f show ?thesis by auto
      next
        case False
        with Inr Inl Cons.prems t f show ?thesis by auto
      qed
    qed
  qed
qed

lemma download_loop_append:
  "download_loop env pre dst w = (Inr False, w1) \<Longrightarrow>
     download_loop env (pre @ rest) dst w = download_loop env rest dst w1"
proof (induction pre arbitrary: w)
  case Nil
  then show ?case by simp
next
  case (Cons u us)
  then show ?case
    by (auto split: prod.splits sum.splits bool.splits)
qed


lemma read_both_world: "snd (read_both env o1 o2 p1 p2 w) = w"
  by (simp add: read_both_def split: sum.splits)




lemmas demo_defs =
  demo_env_def demo_digest_def demo_fetch_def demo_untar_def cpython_urllib_def
  fresh_world_def cached_world_def readonly_world_def

lemmas os_defs =
  abspath_def isabs_def getcwd_def os_path_join_def os_path_isfile_def os_path_isdir_def
  os_path_exists_def read_file_def write_file_def os_makedirs_def os_getcwd_def
  os_chdir_def os_remove_def

lemma convert_column_Text:
  "Text s \<in> set (convert_column env na toks) \<Longrightarrow> s \<notin> set na"
  by (auto simp: convert_column_def split: if_splits option.splits)

lemma read_csv_Text_nonempty:
  assumes "read_csv env opts w p = Inr df" and "map_of df name = Some col"
    and "Text s \<in> set col"
  shows "s \<noteq> []"
proof -
  from assms(1) obtain cols where
    df: "df = map (\<lambda>(name, toks).
             (name, convert_column env (opt_na_values opts @ default_na_values) toks)) cols"
    by (auto simp: read_csv_def split: sum.splits)
  from assms(2) have "(name, col) \<in> set df" by (rule map_of_SomeD)
  with df obtain toks where
    "col = convert_column env (opt_na_values opts @ default_na_values) toks"
    by auto
  with assms(3) convert_column_Text [of s env "opt_na_values opts @ default_na_values" toks]
  have "s \<notin> set (opt_na_values opts @ default_na_values)"
    by blast
  then show ?thesis by (auto simp: default_na_values_def)
qed

lemma astype_cells_Object: "astype_cells Object col = Inr col"
  by (induction col) simp_all

lemma astype_columns_keeps:
  "astype_columns dt df = Inr df' \<Longrightarrow>
     map fst df' = map fst df
     \<and> (map_of dt name = Some Object \<longrightarrow> map_of df' name = map_of df name)"
proof (induction df arbitrary: df')
  case Nil
  then show ?case by simp
next
  case (Cons c df)
  obtain n col where c: "c = (n, col)" by (cases c)
  from Cons.prems c obtain col' rest' where
    col': "(case map_of dt n of None \<Rightarrow> Inr col | Some t \<Rightarrow> astype_cells t col) = Inr col'"
    and rest': "astype_columns dt df = Inr rest'"
    and df': "df' = (n, col') # rest'"
    by (auto split: sum.splits)
  from Cons.IH [OF rest'] have ih: "map fst rest' = map fst df"
    "map_of dt name = Some Object \<longrightarrow> map_of rest' name = map_of df name" by simp_all
  have "map_of dt n = Some Object \<longrightarrow> col' = col"
    using col' by (auto simp: astype_cells_Object)
  with ih df' c show ?case by auto
qed

lemma astype_keeps:
  "astype dt df = Inr df' \<Longrightarrow>
     map fst df' = map fst df
     \<and> (map_of dt name = Some Object \<longrightarrow> map_of df' name = map_of df name)"
  by (auto simp: astype_def split: option.splits dest: astype_columns_keeps)

lemma map_fst_set_cell: "map fst (set_cell df name i v) = map fst df"
  by (induction df) (auto simp: set_cell_def)

lemma map_of_set_cell:
  "map_of (set_cell df name i v) m =
     (if m = name then map_option (\<lambda>col. col[i := v]) (map_of df name) else map_of df m)"
  by (induction df) (auto simp: set_cell_def)

lemma strip_last_Inr: "strip_last c = Inr v \<Longrightarrow> \<exists>s. c = Text s \<and> v = Text (butlast s)"
  by (cases c) auto

lemma fix_income_loop_result:
  "fix_income_loop idx df = Inr df' \<Longrightarrow> map_of df ''income'' = Some col \<Longrightarrow> distinct idx \<Longrightarrow>
     map fst df' = map fst df
     \<and> (\<forall>m. m \<noteq> ''income'' \<longrightarrow> map_of df' m = map_of df m)
     \<and> (\<exists>col'. map_of df' ''income'' = Some col' \<and> length col' = length col
          \<and> (\<forall>j<length col.
                (j \<in> set idx \<longrightarrow> (\<exists>s. col ! j = Text s \<and> col' ! j = Text (butlast s)))
                \<and> (j \<notin> set idx \<longrightarrow> col' ! j = col ! j)))"
proof (induction idx arbitrary: df col)
  case Nil
  then show ?case by simp
next
  case (Cons i rest)
  from Cons.prems(1,2) have i: "i < length col"
    by (auto split: if_splits)
  with Cons.prems(1,2) obtain v where
    v: "strip_last (col ! i) = Inr v"
    and run: "fix_income_loop rest (set_cell df ''income'' i v) = Inr df'"
    by (auto split: sum.splits)
  from strip_last_Inr [OF v] obtain s where s: "col ! i = Text s" "v = Text (butlast s)"
    by blast
  let ?df1 = "set_cell df ''income'' i v"
  have col1: "map_of ?df1 ''income'' = Some (col[i := v])"
    using Cons.prems(2) by (simp add: map_of_set_cell)
  from Cons.prems(3) have d: "distinct rest" "i \<notin> set rest" by simp_all
  from Cons.IH [OF run col1 d(1)] obtain col' where
    names: "map fst df' = map fst ?df1"
    and others: "\<forall>m. m \<noteq> ''income'' \<longrightarrow> map_of df' m = map_of ?df1 m"
    and col': "map_of df' ''income'' = Some col'" "length col' = length col"
    and cells: "\<forall>j<length col.
        (j \<in> set rest \<longrightarrow> (\<exists>s. col[i := v] ! j = Text s \<and> col' ! j = Text (butlast s)))
        \<and> (j \<notin> set rest \<longrightarrow> col' ! j = col[i := v] ! j)"
    by auto
  have "\<forall>j<length col.
          (j \<in> set (i # rest) \<longrightarrow> (\<exists>s. col ! j = Text s \<and> col' ! j = Text (butlast s)))
          \<and> (j \<notin> set (i # rest) \<longrightarrow> col' ! j = col ! j)"
  proof (intro allI impI)
    fix j assume j: "j < length col"
    show "(j \<in> set (i # rest) \<longrightarrow> (\<exists>s. col ! j = Text s \<and> col' ! j = Text (butlast s)))
          \<and> (j \<notin> set (i # rest) \<longrightarrow> col' ! j = col ! j)"
    proof (cases "j = i")
      case True
      with d(2) cells j have "col' ! j = col[i := v] ! j" by blast
      with True i s show ?thesis by simp
    next
      case False
      then have "i \<noteq> j" by blast
      then have eq: "col[i := v] ! j = col ! j" by simp
      from cells j
      have "(j \<in> set rest \<longrightarrow>
               (\<exists>s. col[i := v] ! j = Text s \<and> col' ! j = Text (butlast s)))
            \<and> (j \<notin> set rest \<longrightarrow> col' ! j = col[i := v] ! j)"
        by blast
      with eq False show ?thesis by simp
    qed
  qed
  with names others col' show ?case
    by (simp add: map_fst_set_cell map_of_set_cell)
qed

lemma fix_income_result:
  assumes "fix_income df = Inr df'" and "map_of df ''income'' = Some col"
  shows "map fst df' = map fst df
     \<and> (\<forall>m. m \<noteq> ''income'' \<longrightarrow> map_of df' m = map_of df m)
     \<and> (\<exists>col'. map_of df' ''income'' = Some col'
          \<and> list_all2 (\<lambda>raw new. \<exists>s. raw = Text s \<and> new = Text (butlast s)) col col')"
proof -
  from assms have run: "fix_income_loop [0..<length col] df = Inr df'"
    by (simp add: fix_income_def)
  from fix_income_loop_result [OF run assms(2)] obtain col' where
    names: "map fst df' = map fst df"
    and others: "\<forall>m. m \<noteq> ''income'' \<longrightarrow> map_of df' m = map_of df m"
    and col': "map_of df' ''income'' = Some col'" "length col' = length col"
    and cells: "\<forall>j<length col. \<exists>s. col ! j = Text s \<and> col' ! j = Text (butlast s)"
    by auto
  from col'(2) cells
  have "list_all2 (\<lambda>raw new. \<exists>s. raw = Text s \<and> new = Text (butlast s)) col col'"
    by (simp add: list_all2_conv_all_nth)
  with names others col'(1) show ?thesis by blast
qed

lemmas load_defs =
  get_cache_path_def read_both_def read_csv_def convert_column_def default_opts_def
  default_na_values_def demo_csv_fields_def demo_number_def loaded_world_def


lemmas census_defs =
  census_env_def census_digest_def census_world_def census_frame_def adult_names_def
  adult_opts_def demo_csv_fields_def demo_number_def

subsection \<open>The \<open>except\<close> clause of line 61\<close>

text \<open>
  What the download loop does depends on whether the name \<open>URLError\<close> is bound in the
  module \<open>urllib\<close>. Where it is not, the first transfer that fails ends the call with
  \<open>AttributeError\<close>, whatever the exception of the transfer was and however many
  mirrors are left. Where it is bound to an exception class, a failed transfer moves on
  to the next mirror, and running out of mirrors raises the \<open>RuntimeError\<close> of line 64
  with the URLs as its second argument.
\<close>

lemma download_loop_name_unbound:
  assumes "urllib_attr env ''URLError'' = None"
    and "urlretrieve env u dst w = (Inl e, w1)"
  shows "download_loop env (u # us) dst w = (Inl (AttributeError ''URLError''), w1)"
  using assms by (simp add: handler_catches_def)

lemma cached_download_name_unbound:
  assumes "urllib_attr env ''URLError'' = None"
    and "cache_hit env md5 dst w = Inr False"
    and "urls_of url = u # us"
    and "urlretrieve env u dst w = (Inl e, w1)"
  shows "cached_download env url md5 dst w = (Inl (AttributeError ''URLError''), w1)"
  using assms(2,3) download_loop_name_unbound [OF assms(1,4), of us]
  by (simp add: cached_download_def)

lemma urlretrieve_aborted:
  assumes "fetch env u = Aborted e part" and "isinstance e OSError_class"
  shows "\<exists>e' w1. urlretrieve env u dst w = (Inl e', w1) \<and> isinstance e' OSError_class"
proof (cases part)
  case None
  with assms show ?thesis by (simp add: urlretrieve_def)
next
  case (Some b)
  let ?w0 = "w\<lparr>requested := requested w @ [u]\<rparr>"
  obtain r2 w2 where wr: "write_file dst b ?w0 = (r2, w2)" by (cases "write_file dst b ?w0")
  show ?thesis
  proof (cases r2)
    case (Inl e')
    with wr have "isinstance e' OSError_class"
      by (auto simp: write_file_def Let_def split: if_splits option.splits)
    with Inl wr Some assms show ?thesis by (simp add: urlretrieve_def)
  next
    case (Inr x)
    with wr Some assms show ?thesis by (simp add: urlretrieve_def)
  qed
qed

lemma download_loop_all_aborted:
  assumes "urllib_attr env ''URLError'' = Some c"
    and "list_all (\<lambda>u. case fetch env u of
                          Transferred _ \<Rightarrow> False
                        | Aborted e _ \<Rightarrow> isinstance e OSError_class) us"
  shows "\<exists>w1. download_loop env us dst w = (Inr False, w1)"
  using assms(2)
proof (induction us arbitrary: w)
  case Nil
  then show ?case by simp
next
  case (Cons u us)
  from Cons.prems obtain e part where
    f: "fetch env u = Aborted e part" "isinstance e OSError_class"
    by (cases "fetch env u") auto
  from urlretrieve_aborted [OF f, of dst w] obtain e' w0 where
    t: "urlretrieve env u dst w = (Inl e', w0)" "isinstance e' OSError_class"
    by blast
  from Cons.prems have "list_all (\<lambda>u. case fetch env u of
                          Transferred _ \<Rightarrow> False
                        | Aborted e _ \<Rightarrow> isinstance e OSError_class) us"
    by simp
  from Cons.IH [OF this, of w0] obtain w1 where "download_loop env us dst w0 = (Inr False, w1)"
    by blast
  with t assms(1) show ?case by (simp add: handler_catches_def)
qed

lemma cached_download_all_aborted:
  assumes "urllib_attr env ''URLError'' = Some c"
    and "cache_hit env md5 dst w = Inr False"
    and "list_all (\<lambda>u. case fetch env u of
                          Transferred _ \<Rightarrow> False
                        | Aborted e _ \<Rightarrow> isinstance e OSError_class) (urls_of url)"
  shows "\<exists>w1. cached_download env url md5 dst w
                 = (Inl (RuntimeError [AStr ''failed to download from %s'',
                                        ASeq (urls_of url)]), w1)
              \<and> requested w1 = requested w @ urls_of url"
proof -
  from download_loop_all_aborted [OF assms(1,3), of dst w] obtain w1 where
    l: "download_loop env (urls_of url) dst w = (Inr False, w1)" by blast
  from download_loop_frame [OF l, of undefined]
  have "requested w1 = requested w @ urls_of url" by simp
  with l assms(2) show ?thesis by (simp add: cached_download_def)
qed

lemma cached_download_fallback:
  assumes "urllib_attr env ''URLError'' = Some c"
    and "cache_hit env md5 dst w = Inr False"
    and "urlretrieve env u1 dst w = (Inl e, w1)"
    and "isinstance e OSError_class"
    and "urlretrieve env u2 dst w1 = (Inr (), w2)"
    and "calc_md5 env w2 dst = Inr md5"
  shows "cached_download env (Many [u1, u2]) md5 dst w = (Inr (), w2)"
  using assms by (simp add: cached_download_def handler_catches_def)

lemma cached_download_fallback_example:
  "cached_download (demo_env\<lparr>urllib_attr := \<lambda>name. Some URLError_class\<rparr>)
     (Many [''http://down/'', ''http://good/'']) ''md5:tgz'' ''/w/f'' fresh_world
   = (Inr (), fresh_world\<lparr>requested := [''http://down/'', ''http://good/''],
                         files := [''/w/f'' \<mapsto> ''tgz'']\<rparr>)"
  by (simp add: cached_download_def cache_hit_def calc_md5_eq urlretrieve_def
        handler_catches_def demo_defs os_defs)

section \<open>Properties of the module\<close>

text \<open>
  Claim C1. For every destination, expected checksum and URL argument: when the
  destination is a file whose MD5 digest is the expected one, \<open>_cached_download\<close>
  returns at once. The world after the call is the world before it: no URL has been
  requested and no file has changed, so a second call does nothing either.
\<close>

theorem cached_download_cache_hit:
  "os_path_isfile w dst \<Longrightarrow> calc_md5 env w dst = Inr md5 \<Longrightarrow>
     cached_download env url md5 dst w = (Inr (), w)"
  by (simp add: cached_download_def cache_hit_def)

theorem cached_download_cache_hit_witness:
  "os_path_isfile cached_world ''/w/f''
   \<and> calc_md5 demo_env cached_world ''/w/f'' = Inr ''md5:tgz''
   \<and> cached_download demo_env (Many [''http://down/'', ''http://good/'']) ''md5:tgz'' ''/w/f''
        cached_world = (Inr (), cached_world)
   \<and> requested cached_world = []"
proof -
  have a: "os_path_isfile cached_world ''/w/f''"
    by (simp add: demo_defs os_defs)
  have b: "calc_md5 demo_env cached_world ''/w/f'' = Inr ''md5:tgz''"
    by (simp add: calc_md5_eq demo_defs os_defs)
  from cached_download_cache_hit [OF a b] a b show ?thesis
    by (simp add: demo_defs)
qed

text \<open>
  Claim C2. For every list of mirrors \<open>pre @ u # post\<close>: when the destination is no
  valid cached file, the transfers from the URLs of \<open>pre\<close> have failed and been caught,
  the transfer from \<open>u\<close> succeeds, and the digest of the downloaded file differs from
  the expected one, \<open>_cached_download\<close> raises a \<open>RuntimeError\<close> whose message is
  \<open>md5 sum mismatch; expected\<close>, the expected digest, \<open>, but got\<close>, the digest of the
  downloaded file; and the URLs requested are those of \<open>pre\<close> and \<open>u\<close>: none of \<open>post\<close>
  is tried.
\<close>

theorem checksum_mismatch_stops:
  assumes miss: "cache_hit env md5 dst w = Inr False"
    and urls: "urls_of url = pre @ u # post"
    and failed: "download_loop env pre dst w = (Inr False, w1)"
    and ok: "urlretrieve env u dst w1 = (Inr (), w2)"
    and got: "calc_md5 env w2 dst = Inr got"
    and diff: "got \<noteq> md5"
  shows "cached_download env url md5 dst w
           = (Inl (RuntimeError
                [AStr (''md5 sum mismatch; expected '' @ md5 @ '', but got '' @ got)]), w2)
         \<and> requested w2 = requested w @ pre @ [u]"
proof -
  have "download_loop env (pre @ u # post) dst w = download_loop env (u # post) dst w1"
    by (rule download_loop_append [OF failed])
  also have "\<dots> = (Inr True, w2)" using ok by simp
  finally have loop: "download_loop env (urls_of url) dst w = (Inr True, w2)"
    by (simp add: urls)
  have "cached_download env url md5 dst w
          = (Inl (RuntimeError
               [AStr (''md5 sum mismatch; expected '' @ md5 @ '', but got '' @ got)]), w2)"
    using miss loop got diff by (simp add: cached_download_def mismatch_message_def)
  moreover have "requested w2 = requested w @ pre @ [u]"
    using download_loop_frame [OF failed, of undefined] urlretrieve_frame [OF ok, of undefined]
    by simp
  ultimately show ?thesis by simp
qed

theorem checksum_mismatch_stops_witness:
  "cache_hit demo_env ''md5:tgz'' ''/w/f'' fresh_world = Inr False
   \<and> urlretrieve demo_env ''http://stale/'' ''/w/f'' fresh_world
       = (Inr (), fresh_world\<lparr>requested := [''http://stale/''], files := [''/w/f'' \<mapsto> ''old'']\<rparr>)
   \<and> cached_download demo_env (Many [''http://stale/'', ''http://good/'']) ''md5:tgz'' ''/w/f''
        fresh_world
       = (Inl (RuntimeError [AStr ''md5 sum mismatch; expected md5:tgz, but got md5:old'']),
          fresh_world\<lparr>requested := [''http://stale/''], files := [''/w/f'' \<mapsto> ''old'']\<rparr>)"
proof -
  let ?w2 = "fresh_world\<lparr>requested := [''http://stale/''], files := [''/w/f'' \<mapsto> ''old'']\<rparr>"
  have miss: "cache_hit demo_env ''md5:tgz'' ''/w/f'' fresh_world = Inr False"
    by (simp add: cache_hit_def demo_defs os_defs)
  have urls: "urls_of (Many [''http://stale/'', ''http://good/'']) = [] @ ''http://stale/'' # [''http://good/'']"
    by simp
  have failed: "download_loop demo_env [] ''/w/f'' fresh_world = (Inr False, fresh_world)"
    by simp
  have ok: "urlretrieve demo_env ''http://stale/'' ''/w/f'' fresh_world = (Inr (), ?w2)"
    by (simp add: urlretrieve_def demo_defs os_defs)
  have got: "calc_md5 demo_env ?w2 ''/w/f'' = Inr ''md5:old''"
    by (simp add: calc_md5_eq demo_defs os_defs)
  have diff: "''md5:old'' \<noteq> ''md5:tgz''" by simp
  from checksum_mismatch_stops [OF miss urls failed ok got diff] miss ok
  show ?thesis by simp
qed

text \<open>
  Claim C3 says that with two mirrors, the first failing with a network error and
  the second serving the expected content, \<open>_cached_download\<close> returns normally. On
  the code it does not: the failure of the first transfer reaches the \<open>except\<close> clause
  of line 61, whose expression \<open>urllib.URLError\<close> raises \<open>AttributeError\<close>, and that
  exception leaves the function before the second mirror is requested.
\<close>

theorem mirror_fallback_raises:
  "cached_download demo_env (Many [''http://down/'', ''http://good/'']) ''md5:tgz'' ''/w/f''
     fresh_world
   = (Inl (AttributeError ''URLError''), fresh_world\<lparr>requested := [''http://down/'']\<rparr>)"
  by (simp add: cached_download_def cache_hit_def urlretrieve_def handler_catches_def
        demo_defs os_defs)

text \<open>
  Claim C4 says that when every mirror fails with a network error,
  \<open>_cached_download\<close> raises a \<open>RuntimeError\<close> naming the URLs. On the code the first
  failure raises \<open>AttributeError\<close> from the \<open>except\<close> clause of line 61, so the loop
  never runs out of mirrors and line 64 is never reached.
\<close>

theorem all_mirrors_down_raises:
  "cached_download demo_env (Many [''http://down/'', ''http://gone/'']) ''md5:tgz'' ''/w/f''
     fresh_world
   = (Inl (AttributeError ''URLError''), fresh_world\<lparr>requested := [''http://down/'']\<rparr>)"
  by (simp add: cached_download_def cache_hit_def urlretrieve_def handler_catches_def
        demo_defs os_defs)

text \<open>
  Claim C5. For every dataset descriptor: when the train file and the test file both
  exist in the cache directory, \<open>_cached_dataset_load\<close> is the parsing of the two files
  and nothing else. The world after the call is the world before it (no URL requested,
  no file or directory written), and neither the URL nor the checksum takes part in
  the result.
\<close>

theorem cached_dataset_load_short_circuit:
  assumes "get_cache_path w = Inr cp"
    and "os_path_exists w (os_path_join (os_path_join cp dataset_name) train_file)"
    and "os_path_exists w (os_path_join (os_path_join cp dataset_name) test_file)"
  shows "cached_dataset_load env url md5 dataset_name train_file test_file header w
           = read_both env (default_opts header) (default_opts header)
               (os_path_join (os_path_join cp dataset_name) train_file)
               (os_path_join (os_path_join cp dataset_name) test_file) w
         \<and> snd (cached_dataset_load env url md5 dataset_name train_file test_file header w) = w"
  using assms by (simp add: cached_dataset_load_def Let_def read_both_world)

theorem cached_dataset_load_short_circuit_witness:
  "get_cache_path loaded_world = Inr ''/w/catboost_cached_datasets''
   \<and> os_path_exists loaded_world ''/w/catboost_cached_datasets/d/train.csv''
   \<and> os_path_exists loaded_world ''/w/catboost_cached_datasets/d/test.csv''
   \<and> cached_dataset_load demo_env (One ''http://down/'') ''a stale digest'' ''d''
        ''train.csv'' ''test.csv'' Infer loaded_world
       = (Inr ([(''id'', [Number 1]), (''income'', [Text ''<=50K''])],
               [(''id'', [Number 1]), (''income'', [Text ''>50K.''])]), loaded_world)"
proof -
  have cp: "get_cache_path loaded_world = Inr ''/w/catboost_cached_datasets''"
    by (simp add: load_defs demo_defs os_defs)
  have j: "os_path_join (os_path_join ''/w/catboost_cached_datasets'' ''d'') ''train.csv''
             = ''/w/catboost_cached_datasets/d/train.csv''"
    "os_path_join (os_path_join ''/w/catboost_cached_datasets'' ''d'') ''test.csv''
             = ''/w/catboost_cached_datasets/d/test.csv''"
    by (simp_all add: os_path_join_def isabs_def)
  have ex: "os_path_exists loaded_world ''/w/catboost_cached_datasets/d/train.csv''"
    "os_path_exists loaded_world ''/w/catboost_cached_datasets/d/test.csv''"
    by (simp_all add: load_defs demo_defs os_defs)
  have rb: "read_both demo_env (default_opts Infer) (default_opts Infer)
              ''/w/catboost_cached_datasets/d/train.csv''
              ''/w/catboost_cached_datasets/d/test.csv'' loaded_world
            = (Inr ([(''id'', [Number 1]), (''income'', [Text ''<=50K''])],
                    [(''id'', [Number 1]), (''income'', [Text ''>50K.''])]), loaded_world)"
    by (simp add: load_defs demo_defs os_defs)
  from cached_dataset_load_short_circuit
    [where env = demo_env and url = "One ''http://down/''" and ?md5.0 = "''a stale digest''"
       and header = Infer and dataset_name = "''d''" and train_file = "''train.csv''"
       and test_file = "''test.csv''", OF cp]
    cp ex rb j
  show ?thesis by simp
qed





text \<open>
  Claim C8. When \<open>adult()\<close> returns, the train table is the parsed and cast train
  file, untouched by the fix of lines 166-167; the test table has the columns of the
  parsed and cast test file, every column other than \<open>income\<close> unchanged; and every
  value of its \<open>income\<close> column is the parsed value of the same row with exactly its
  last character removed.
\<close>

theorem adult_test_labels_stripped:
  assumes run: "adult env w = (Inr (train_df, test_df), w')"
  shows "\<exists>cache_path raw_train raw_test cast_test labels labels'.
      get_cache_path w = Inr cache_path
    \<and> read_csv env (adult_opts 0) w'
          (os_path_join (os_path_join cache_path ''adult'') ''train.csv'') = Inr raw_train
    \<and> read_csv env (adult_opts 1) w'
          (os_path_join (os_path_join cache_path ''adult'') ''test.csv'') = Inr raw_test
    \<and> astype adult_dtype raw_train = Inr train_df
    \<and> astype adult_dtype raw_test = Inr cast_test
    \<and> map fst test_df = map fst cast_test
    \<and> (\<forall>name. name \<noteq> ''income'' \<longrightarrow> map_of test_df name = map_of cast_test name)
    \<and> map_of raw_test ''income'' = Some labels
    \<and> map_of test_df ''income'' = Some labels'
    \<and> list_all2 (\<lambda>raw new. \<exists>s c. raw = Text (s @ [c]) \<and> new = Text s) labels labels'"
proof -
  from run obtain cp where cp: "get_cache_path w = Inr cp"
    by (cases "get_cache_path w") (auto simp: adult_def)
  let ?dir = "os_path_join cp ''adult''"
  let ?trp = "os_path_join ?dir ''train.csv''"
  let ?tep = "os_path_join ?dir ''test.csv''"
  obtain r1 w1 where e1: "ensure_dir_exists ?dir w = (r1, w1)"
    by (cases "ensure_dir_exists ?dir w")
  obtain r2 w2 where e2: "cached_download env (Many adult_train_urls)
      ''5d7c39d7b8804f071cdd1f2a7c460872'' ?trp w1 = (r2, w2)"
    by (cases "cached_download env (Many adult_train_urls)
      ''5d7c39d7b8804f071cdd1f2a7c460872'' ?trp w1")
  obtain r3 w3 where e3: "cached_download env (Many adult_test_urls)
      ''35238206dfdf7f1fe215bbb874adecdc'' ?tep w2 = (r3, w3)"
    by (cases "cached_download env (Many adult_test_urls)
      ''35238206dfdf7f1fe215bbb874adecdc'' ?tep w2")
  obtain r4 w4 where e4: "read_both env (adult_opts 0) (adult_opts 1) ?trp ?tep w3 = (r4, w4)"
    by (cases "read_both env (adult_opts 0) (adult_opts 1) ?trp ?tep w3")
  from run cp e1 e2 e3 e4 obtain raw_train raw_test where
    r4: "r4 = Inr (raw_train, raw_test)" and w4: "w4 = w'"
    and pp: "adult_postprocess raw_train raw_test = Inr (train_df, test_df)"
    by (auto simp: adult_def Let_def split: sum.splits prod.splits)
  from read_both_world [of env "adult_opts 0" "adult_opts 1" ?trp ?tep w3] e4 w4
  have w3: "w3 = w'" by simp
  from e4 r4 w3 have rd: "read_csv env (adult_opts 0) w' ?trp = Inr raw_train"
    "read_csv env (adult_opts 1) w' ?tep = Inr raw_test"
    by (auto simp: read_both_def split: sum.splits)
  from pp obtain cast_test where
    tr: "astype adult_dtype raw_train = Inr train_df"
    and te: "astype adult_dtype raw_test = Inr cast_test"
    and fx: "fix_income cast_test = Inr test_df"
    by (auto simp: adult_postprocess_def split: sum.splits)
  have "map_of adult_dtype ''income'' = Some Object"
    by (simp add: adult_dtype_def)
  with astype_keeps [OF te, of "''income''"]
  have same: "map_of cast_test ''income'' = map_of raw_test ''income''" by simp
  from fx obtain labels where lab: "map_of cast_test ''income'' = Some labels"
    by (cases "map_of cast_test ''income''") (auto simp: fix_income_def)
  from fix_income_result [OF fx lab] obtain labels' where
    names: "map fst test_df = map fst cast_test"
    and others: "\<forall>m. m \<noteq> ''income'' \<longrightarrow> map_of test_df m = map_of cast_test m"
    and lab': "map_of test_df ''income'' = Some labels'"
    and cut: "list_all2 (\<lambda>raw new. \<exists>s. raw = Text s \<and> new = Text (butlast s)) labels labels'"
    by blast
  from same lab have raw_lab: "map_of raw_test ''income'' = Some labels" by simp
  have "list_all2 (\<lambda>raw new. \<exists>s c. raw = Text (s @ [c]) \<and> new = Text s) labels labels'"
    using cut
  proof (rule list.rel_mono_strong)
    fix raw new
    assume mem: "raw \<in> set labels" and "\<exists>s. raw = Text s \<and> new = Text (butlast s)"
    then obtain s where s: "raw = Text s" "new = Text (butlast s)" by blast
    with mem read_csv_Text_nonempty [OF rd(2) raw_lab, of s] have "s \<noteq> []" by simp
    then have "s = butlast s @ [last s]" by simp
    with s show "\<exists>s c. raw = Text (s @ [c]) \<and> new = Text s" by metis
  qed
  with cp rd tr te names others raw_lab lab' show ?thesis by blast
qed

theorem adult_test_labels_stripped_witness:
  "adult census_env census_world
     = (Inr (census_frame ''<=50K'', census_frame ''>50K''), census_world)
   \<and> read_csv census_env (adult_opts 1) census_world
         ''/w/catboost_cached_datasets/adult/test.csv'' = Inr (census_frame ''>50K.'')
   \<and> map_of (census_frame ''>50K.'') ''income'' = Some [Text ''>50K.'']
   \<and> map_of (census_frame ''>50K'') ''income'' = Some [Text ''>50K'']
   \<and> (\<exists>cache_path raw_train raw_test cast_test labels labels'.
        get_cache_path census_world = Inr cache_path
      \<and> read_csv census_env (adult_opts 0) census_world
            (os_path_join (os_path_join cache_path ''adult'') ''train.csv'') = Inr raw_train
      \<and> read_csv census_env (adult_opts 1) census_world
            (os_path_join (os_path_join cache_path ''adult'') ''test.csv'') = Inr raw_test
      \<and> astype adult_dtype raw_train = Inr (census_frame ''<=50K'')
      \<and> astype adult_dtype raw_test = Inr cast_test
      \<and> map fst (census_frame ''>50K'') = map fst cast_test
      \<and> (\<forall>name. name \<noteq> ''income''
             \<longrightarrow> map_of (census_frame ''>50K'') name = map_of cast_test name)
      \<and> map_of raw_test ''income'' = Some labels
      \<and> map_of (census_frame ''>50K'') ''income'' = Some labels'
      \<and> list_all2 (\<lambda>raw new. \<exists>s c. raw = Text (s @ [c]) \<and> new = Text s) labels labels')"
proof -
  have j: "os_path_join ''/w/catboost_cached_datasets'' ''adult''
             = ''/w/catboost_cached_datasets/adult''"
    "os_path_join ''/w/catboost_cached_datasets/adult'' ''train.csv''
       = ''/w/catboost_cached_datasets/adult/train.csv''"
    "os_path_join ''/w/catboost_cached_datasets/adult'' ''test.csv''
       = ''/w/catboost_cached_datasets/adult/test.csv''"
    by (simp_all add: os_path_join_def isabs_def)
  have cp: "get_cache_path census_world = Inr ''/w/catboost_cached_datasets''"
    by (simp add: get_cache_path_def census_world_def demo_defs os_defs)
  have ens: "ensure_dir_exists ''/w/catboost_cached_datasets/adult'' census_world
               = (Inr (), census_world)"
    by (simp add: ensure_dir_exists_def census_world_def demo_defs os_defs)
  have d1: "cached_download census_env (Many adult_train_urls)
              ''5d7c39d7b8804f071cdd1f2a7c460872''
              ''/w/catboost_cached_datasets/adult/train.csv'' census_world
            = (Inr (), census_world)"
    by (simp add: cached_download_def cache_hit_def calc_md5_eq census_env_def
          census_digest_def census_world_def demo_defs os_defs)
  have d2: "cached_download census_env (Many adult_test_urls)
              ''35238206dfdf7f1fe215bbb874adecdc''
              ''/w/catboost_cached_datasets/adult/test.csv'' census_world
            = (Inr (), census_world)"
    by (simp add: cached_download_def cache_hit_def calc_md5_eq census_env_def
          census_digest_def census_world_def demo_defs os_defs)
  have r1: "read_csv census_env (adult_opts 0) census_world
              ''/w/catboost_cached_datasets/adult/train.csv'' = Inr (census_frame ''<=50K'')"
    by (simp add: read_csv_def convert_column_def default_na_values_def census_defs
          demo_defs os_defs)
  have r2: "read_csv census_env (adult_opts 1) census_world
              ''/w/catboost_cached_datasets/adult/test.csv'' = Inr (census_frame ''>50K.'')"
    by (simp add: read_csv_def convert_column_def default_na_values_def census_defs
          demo_defs os_defs)
  have a1: "astype adult_dtype (census_frame ''<=50K'') = Inr (census_frame ''<=50K'')"
    by (simp add: astype_def adult_dtype_def census_frame_def adult_names_def)
  have a2: "astype adult_dtype (census_frame ''>50K.'') = Inr (census_frame ''>50K.'')"
    by (simp add: astype_def adult_dtype_def census_frame_def adult_names_def)
  have fx: "fix_income (census_frame ''>50K.'') = Inr (census_frame ''>50K'')"
    by (simp add: fix_income_def set_cell_def census_frame_def adult_names_def)
  have pp: "adult_postprocess (census_frame ''<=50K'') (census_frame ''>50K.'')
              = Inr (census_frame ''<=50K'', census_frame ''>50K'')"
    by (simp add: adult_postprocess_def a1 a2 fx)
  have run: "adult census_env census_world
               = (Inr (census_frame ''<=50K'', census_frame ''>50K''), census_world)"
    by (simp add: adult_def cp j ens d1 d2 read_both_def r1 r2 pp del: One_nat_def)
  have m: "map_of (census_frame ''>50K.'') ''income'' = Some [Text ''>50K.'']"
    "map_of (census_frame ''>50K'') ''income'' = Some [Text ''>50K'']"
    by (simp_all add: census_frame_def adult_names_def)
  note ex = adult_test_labels_stripped [OF run]
  show ?thesis
    apply (intro conjI)
        apply (rule run)
       apply (rule r2)
      apply (rule m(1))
     apply (rule m(2))
    apply (rule ex)
    done
qed

text \<open>
  Claim C9. For every path: when the path is a directory already,
  \<open>os.makedirs\<close> fails with \<open>EEXIST\<close> and \<open>_ensure_dir_exists\<close> returns normally,
  leaving the world as it was; when \<open>os.makedirs\<close> fails with an error \<open>e\<close> and the
  path is no directory afterwards, \<open>_ensure_dir_exists\<close> raises that same \<open>e\<close>; and
  after a normal return the path is a directory.
\<close>

theorem ensure_dir_exists_contract:
  "(os_path_isdir w p \<longrightarrow>
      os_makedirs p w = (Inl (OSError EEXIST), w) \<and> ensure_dir_exists p w = (Inr (), w))
   \<and> (os_makedirs p w = (Inl e, w1) \<and> \<not> os_path_isdir w1 p \<longrightarrow>
        ensure_dir_exists p w = (Inl e, w1))
   \<and> (ensure_dir_exists p w = (Inr (), w2) \<longrightarrow> os_path_isdir w2 p)"
proof (intro conjI impI)
  assume "os_path_isdir w p"
  then show "os_makedirs p w = (Inl (OSError EEXIST), w)"
    by (simp add: os_makedirs_def os_path_isdir_def)
  moreover assume "os_path_isdir w p"
  ultimately show "ensure_dir_exists p w = (Inr (), w)"
    by (simp add: ensure_dir_exists_def)
next
  assume "os_makedirs p w = (Inl e, w1) \<and> \<not> os_path_isdir w1 p"
  then show "ensure_dir_exists p w = (Inl e, w1)"
    by (simp add: ensure_dir_exists_def)
next
  assume r: "ensure_dir_exists p w = (Inr (), w2)"
  obtain r0 w0 where m: "os_makedirs p w = (r0, w0)" by (cases "os_makedirs p w")
  show "os_path_isdir w2 p"
  proof (cases r0)
    case (Inl e)
    with r m show ?thesis
      by (simp add: ensure_dir_exists_def split: if_splits)
  next
    case (Inr u)
    with r m have "w0 = w2" by (simp add: ensure_dir_exists_def)
    with m Inr have "os_makedirs p w = (Inr (), w2)" by simp
    then have "w2 = w\<lparr>dirs := insert (abspath w p) (dirs w)\<rparr>"
      by (simp add: os_makedirs_def Let_def split: if_splits option.splits)
    then have "abspath w2 p = abspath w p" "abspath w p \<in> dirs w2"
      by (simp_all add: abspath_def getcwd_def)
    then show ?thesis by (simp add: os_path_isdir_def)
  qed
qed

theorem ensure_dir_exists_contract_witness:
  "os_path_isdir fresh_world ''/tmp''
   \<and> os_makedirs ''/tmp'' fresh_world = (Inl (OSError EEXIST), fresh_world)
   \<and> ensure_dir_exists ''/tmp'' fresh_world = (Inr (), fresh_world)
   \<and> os_makedirs ''/w/c'' readonly_world = (Inl (OSError EACCES), readonly_world)
   \<and> \<not> os_path_isdir readonly_world ''/w/c''
   \<and> ensure_dir_exists ''/w/c'' readonly_world = (Inl (OSError EACCES), readonly_world)
   \<and> ensure_dir_exists ''c'' fresh_world
        = (Inr (), fresh_world\<lparr>dirs := {''/w/c'', ''/'', ''/tmp'', ''/w''}\<rparr>)
   \<and> os_path_isdir (fresh_world\<lparr>dirs := {''/w/c'', ''/'', ''/tmp'', ''/w''}\<rparr>) ''c''"
proof -
  have a: "os_path_isdir fresh_world ''/tmp''"
    by (simp add: demo_defs os_defs)
  have b: "os_makedirs ''/w/c'' readonly_world = (Inl (OSError EACCES), readonly_world)
           \<and> \<not> os_path_isdir readonly_world ''/w/c''"
    by (simp add: demo_defs os_defs)
  have c: "ensure_dir_exists ''c'' fresh_world
             = (Inr (), fresh_world\<lparr>dirs := {''/w/c'', ''/'', ''/tmp'', ''/w''}\<rparr>)"
    by (simp add: ensure_dir_exists_def demo_defs os_defs)
  note t1 = ensure_dir_exists_contract
    [where w = fresh_world and p = "''/tmp''", THEN conjunct1, rule_format, OF a]
  note t2 = ensure_dir_exists_contract
    [where w = readonly_world and p = "''/w/c''", THEN conjunct2, THEN conjunct1,
     rule_format, OF b]
  note t3 = ensure_dir_exists_contract
    [where w = fresh_world and p = "''c''", THEN conjunct2, THEN conjunct2,
     rule_format, OF c]
  from a b c t1 t2 t3 show ?thesis by blast
qed

text \<open>
  Claim C10. A lone URL string behaves as the one-element sequence that holds it:
  same result, same error, same world afterwards.
\<close>

theorem cached_download_single_url:
  "cached_download env (One u) md5 dst w = cached_download env (Many [u]) md5 dst w"
  by (simp only: cached_download_def urls_of.simps)

end
